theory Spec2Isabelle
  imports Main "HOL-Library.AList"
begin

section \<open>Python values, exceptions and the runtime the anonymizer calls into\<close>

text \<open>
  The values that flow through \<^verbatim>\<open>DataAnonymizer\<close>: the field values of a decoded
  JSON or CSV record, the text of an XML element, and whatever Faker or \<^verbatim>\<open>eval\<close>
  hands back. \<open>PObj\<close> stands for an object of any other type (a float, a list, a nested
  dict, a date); the anonymizer only ever copies such an object or calls \<^verbatim>\<open>str\<close> on it,
  so it is carried by its \<^verbatim>\<open>str()\<close> rendering.
\<close>

datatype pyval = PNone | PBool bool | PInt int | PStr string | PObj string

text \<open>
  A raise is a value. \<^verbatim>\<open>except Exception\<close> catches \<open>PyException\<close> (AttributeError,
  ValueError, TypeError, SyntaxError, NameError, ...) and lets \<open>PyBaseException\<close>
  through (SystemExit, KeyboardInterrupt: the classes that derive from BaseException
  only).
\<close>

datatype pyexc = PyException | PyBaseException

text \<open>
  A call that may raise and that may advance the state \<open>'s\<close> of the random generators
  (Faker's and the \<^verbatim>\<open>random\<close> module's).
\<close>

type_synonym ('a, 's) py = "'s \<Rightarrow> (pyexc + 'a) \<times> 's"

text \<open>
  The two capabilities that are not code of the repository are parameters:
  \<open>fake name\<close> is \<^verbatim>\<open>getattr(self.fake, name)()\<close> and \<open>py_eval src\<close> is Python's
  \<^verbatim>\<open>eval(src)\<close>. Both read and change the generator state and nothing else: an
  expression that reaches into the anonymizer's own objects (\<^verbatim>\<open>eval\<close> runs with
  \<^verbatim>\<open>self\<close> in scope) is outside this model.
\<close>

record 's runtime =
  fake :: "string \<Rightarrow> (pyval, 's) py"
  py_eval :: "string \<Rightarrow> (pyval, 's) py"

subsection \<open>\<^verbatim>\<open>str()\<close> and \<^verbatim>\<open>str.startswith\<close>\<close>

definition digit_char :: "nat \<Rightarrow> char" where
  "digit_char d = ''0123456789'' ! d"

function str_nat :: "nat \<Rightarrow> string" where
  "str_nat n = (if n < 10 then [digit_char n] else str_nat (n div 10) @ [digit_char (n mod 10)])"
  by pat_completeness auto
termination
  by (relation "measure (\<lambda>n. n)") auto

declare str_nat.simps [simp del]

definition str_int :: "int \<Rightarrow> string" where
  "str_int i = (if i < 0 then CHR ''-'' # str_nat (nat (- i)) else str_nat (nat i))"

fun py_str :: "pyval \<Rightarrow> string" where
  "py_str PNone = ''None''"
| "py_str (PBool b) = (if b then ''True'' else ''False'')"
| "py_str (PInt i) = str_int i"
| "py_str (PStr t) = t"
| "py_str (PObj t) = t"

text \<open>
  \<open>string\<close> is a list of bytes. The prefixes tested and sliced off are ASCII, so a
  slice \<^verbatim>\<open>rule[5:]\<close> is \<open>drop 5\<close> whatever the encoding of the rest.
\<close>

definition startswith :: "string \<Rightarrow> string \<Rightarrow> bool" where
  "startswith s p = (take (length p) s = p)"

section \<open>\<^verbatim>\<open>DataAnonymizer._generate_masked_value_from_regex\<close>\<close>

definition backslash :: char where
  "backslash = CHR 0x5C"

definition SSN_PATTERN :: string where
  "SSN_PATTERN = ''^'' @ backslash # ''d{3}-'' @ backslash # ''d{2}-'' @ backslash # ''d{4}$''"

definition EMAIL_PATTERN :: string where
  "EMAIL_PATTERN = ''^[A-Za-z0-9._%+-]+@[A-Za-z0-9.-]+'' @ backslash # ''.[A-Z|a-z]{2,}$''"

definition PHONE_PATTERN :: string where
  "PHONE_PATTERN = ''^'' @ backslash # ''d{10}$''"

definition generate_masked_value_from_regex :: "'s runtime \<Rightarrow> string \<Rightarrow> (pyval, 's) py" where
  "generate_masked_value_from_regex rt regex_pattern s =
     (if regex_pattern = SSN_PATTERN then fake rt ''ssn'' s
      else if regex_pattern = EMAIL_PATTERN then fake rt ''email'' s
      else if regex_pattern = PHONE_PATTERN then fake rt ''phone_number'' s
      else (Inr (PStr ''[MASKED_VALUE]''), s))"

section \<open>\<^verbatim>\<open>DataAnonymizer._apply_masking_rule\<close>\<close>

text \<open>\<open>str(call)\<close>: the call's raise passes through, its value is rendered.\<close>

definition str_of :: "(pyval, 's) py \<Rightarrow> (pyval, 's) py" where
  "str_of call s =
     (case call s of
        (Inl e, s') \<Rightarrow> (Inl e, s')
      | (Inr v, s') \<Rightarrow> (Inr (PStr (py_str v)), s'))"

text \<open>The body of the \<^verbatim>\<open>try\<close> block.\<close>

definition masking_rule_body :: "'s runtime \<Rightarrow> string \<Rightarrow> (pyval, 's) py" where
  "masking_rule_body rt rule s =
     (if startswith rule ''fake.'' then str_of (fake rt (drop 5 rule)) s
      else if startswith rule ''random.'' then str_of (py_eval rt rule) s
      else if rule = ''null'' then (Inr PNone, s)
      else if startswith rule ''regex:'' then generate_masked_value_from_regex rt (drop 6 rule) s
      else (Inr (PStr rule), s))"

text \<open>
  The \<^verbatim>\<open>except Exception\<close> handler turns a caught raise into the marker and lets a
  raise outside \<^verbatim>\<open>Exception\<close> through; the \<^verbatim>\<open>logging.error\<close> call it makes
  writes to the log only and is left out.
\<close>

definition except_Exception :: "(pyval, 's) py \<Rightarrow> (pyval, 's) py" where
  "except_Exception body s =
     (case body s of
        (Inl PyException, s') \<Rightarrow> (Inr (PStr ''[MASKING_ERROR]''), s')
      | (Inl PyBaseException, s') \<Rightarrow> (Inl PyBaseException, s')
      | (Inr v, s') \<Rightarrow> (Inr v, s'))"

definition apply_masking_rule :: "'s runtime \<Rightarrow> string \<Rightarrow> (pyval, 's) py" where
  "apply_masking_rule rt rule = except_Exception (masking_rule_body rt rule)"

section \<open>Mapping mode: \<^verbatim>\<open>DataAnonymizer._anonymize_data\<close>\<close>

text \<open>
  A Python dict keeps insertion order, so a record is the list of its items in that
  order; a well-formed dict has distinct keys. \<open>AList.update\<close> is item assignment
  \<^verbatim>\<open>d[key] = v\<close>: it overwrites in place when the key is there and appends otherwise.
  The rule table maps a field name or tag to a rule string (\<^verbatim>\<open>rule (str)\<close> in the
  docstring); \<open>map_of config key\<close> is \<^verbatim>\<open>config.get(key)\<close>.
\<close>

type_synonym pydict = "(string \<times> pyval) list"

type_synonym rule_table = "(string \<times> string) list"

text \<open>
  The loop over \<^verbatim>\<open>data.items()\<close>, with the dict under construction as accumulator.
  \<^verbatim>\<open>if rule:\<close> is false for \<^verbatim>\<open>None\<close> (no entry) and for the empty string.
\<close>

fun anonymize_items :: "'s runtime \<Rightarrow> rule_table \<Rightarrow> pydict \<Rightarrow> pydict \<Rightarrow> (pydict, 's) py" where
  "anonymize_items rt config [] anonymized_data s = (Inr anonymized_data, s)"
| "anonymize_items rt config ((key, value) # items) anonymized_data s =
     (case map_of config key of
        None \<Rightarrow> anonymize_items rt config items (AList.update key value anonymized_data) s
      | Some rule \<Rightarrow>
          if rule \<noteq> [] then
            (case apply_masking_rule rt rule s of
               (Inl e, s') \<Rightarrow> (Inl e, s')
             | (Inr masked, s') \<Rightarrow>
                 anonymize_items rt config items (AList.update key masked anonymized_data) s')
          else anonymize_items rt config items (AList.update key value anonymized_data) s)"

definition anonymize_data :: "'s runtime \<Rightarrow> pydict \<Rightarrow> rule_table \<Rightarrow> (pydict, 's) py" where
  "anonymize_data rt data config = anonymize_items rt config data []"

text \<open>
  \<^verbatim>\<open>config or self.config\<close>: the argument unless it is \<^verbatim>\<open>None\<close> or the empty
  dict.
\<close>

definition config_or :: "rule_table option \<Rightarrow> rule_table \<Rightarrow> rule_table" where
  "config_or config self_config =
     (case config of None \<Rightarrow> self_config | Some c \<Rightarrow> if c = [] then self_config else c)"

definition anonymize_json :: "'s runtime \<Rightarrow> rule_table \<Rightarrow> pydict \<Rightarrow> rule_table option \<Rightarrow> (pydict, 's) py" where
  "anonymize_json rt self_config data config = anonymize_data rt data (config_or config self_config)"

section \<open>Sequence mode: \<^verbatim>\<open>DataAnonymizer.anonymize_csv\<close>\<close>



section \<open>Tree mode: \<^verbatim>\<open>DataAnonymizer._anonymize_xml_element\<close>\<close>

text \<open>
  An \<^verbatim>\<open>xml.etree.ElementTree.Element\<close>: tag, text, tail, attributes and the ordered
  children. \<^verbatim>\<open>child.text = ...\<close> stores whatever the rule produced, so the text (\<open>text_of\<close>) is a
  Python value (\<open>PNone\<close> when the element has no text).
\<close>

datatype element =
  Element (tag: string) (text_of: pyval) (tail: pyval) (attrib: "(string \<times> string) list")
    (children: "element list")

fun set_text :: "element \<Rightarrow> pyval \<Rightarrow> element" where
  "set_text (Element tg tx ta at cs) v = Element tg v ta at cs"

fun set_children :: "element \<Rightarrow> element list \<Rightarrow> element" where
  "set_children (Element tg tx ta at cs) cs' = Element tg tx ta at cs'"

fun nodes :: "element \<Rightarrow> nat" where
  "nodes (Element tg tx ta at cs) = Suc (sum_list (map nodes cs))"

text \<open>
  The method mutates the tree in place and returns nothing; the model returns the
  tree after the call. \<open>anonymize_children\<close> is the \<^verbatim>\<open>for child in element\<close> loop:
  the rule lookup and the assignment to \<^verbatim>\<open>child.text\<close>, then the recursive call on
  that child, then the remaining children.
\<close>

function anonymize_xml_element :: "'s runtime \<Rightarrow> element \<Rightarrow> rule_table \<Rightarrow> (element, 's) py"
  and anonymize_children :: "'s runtime \<Rightarrow> rule_table \<Rightarrow> element list \<Rightarrow> (element list, 's) py"
where
  "anonymize_xml_element rt element config s =
     (case anonymize_children rt config (children element) s of
        (Inl e, s') \<Rightarrow> (Inl e, s')
      | (Inr cs, s') \<Rightarrow> (Inr (set_children element cs), s'))"
| "anonymize_children rt config [] s = (Inr [], s)"
| "anonymize_children rt config (child # rest) s =
     (case (case map_of config (tag child) of
              None \<Rightarrow> (Inr child, s)
            | Some rule \<Rightarrow>
                (case apply_masking_rule rt rule s of
                   (Inl e, s1) \<Rightarrow> (Inl e, s1)
                 | (Inr masked, s1) \<Rightarrow> (Inr (set_text child masked), s1))) of
        (Inl e, s1) \<Rightarrow> (Inl e, s1)
      | (Inr child1, s1) \<Rightarrow>
          (case anonymize_xml_element rt child1 config s1 of
             (Inl e, s2) \<Rightarrow> (Inl e, s2)
           | (Inr child2, s2) \<Rightarrow>
               (case anonymize_children rt config rest s2 of
                  (Inl e, s3) \<Rightarrow> (Inl e, s3)
                | (Inr rest', s3) \<Rightarrow> (Inr (child2 # rest'), s3))))"
  by pat_completeness auto
termination
proof (relation "measure (\<lambda>x. case x of
                   Inl (rt, e, cfg, s) \<Rightarrow> 2 * nodes e
                 | Inr (rt, cfg, cs, s) \<Rightarrow> 2 * sum_list (map nodes cs) + 1)", goal_cases)
  case 1
  show ?case by simp
next
  case (2 rt element config s)
  have "sum_list (map nodes (children element)) < nodes element"
    by (cases element) simp
  then show ?case by simp
next
  case (3 rt config child rest s x1 s1 child1)
  have "nodes (set_text child masked) = nodes child" for masked
    by (cases child) simp
  with 3 have "nodes child1 = nodes child"
    by (auto split: option.splits prod.splits sum.splits)
  then show ?case by simp
next
  case (4 rt config child rest s x1 s1 child1 x2 s2 child2)
  have "0 < nodes child" by (cases child) simp
  then show ?case by simp
qed

declare anonymize_xml_element.simps [simp del]

section \<open>A runtime to run the anonymizer on\<close>

text \<open>
  The theorems below hold for every runtime. To evaluate the anonymizer on concrete
  inputs, \<open>demo_runtime\<close> fixes one. Its generator state is the list of raw draws still
  to come (\<open>0\<close> once it is used up). Its \<open>eval_random\<close> is \<^verbatim>\<open>eval\<close> on the calls
  \<^verbatim>\<open>random.randint(a, b)\<close> and \<^verbatim>\<open>random.randrange(a, b)\<close> that \<open>parse_call\<close>
  reads (decimal integer literals), as the \<^verbatim>\<open>random\<close> module documents them:
  \<^verbatim>\<open>randint(a, b)\<close> is \<^verbatim>\<open>randrange(a, b + 1)\<close>, \<^verbatim>\<open>randrange(a, b)\<close> is \<open>a\<close> plus
  a draw below \<open>b - a\<close>, and an empty range raises ValueError. Every other source text
  makes \<open>eval_random\<close> raise an \<^verbatim>\<open>Exception\<close>; that is what Python does for a name
  the module does not have (AttributeError) and for a wrong number of arguments
  (TypeError), and it is not claimed for anything else: no statement below evaluates
  \<open>eval_random\<close> on another function of the module or on another expression. Its
  \<open>fake_demo\<close> is a Faker with five providers and AttributeError for every other name.
\<close>

definition is_digit :: "char \<Rightarrow> bool" where
  "is_digit c = (c \<in> set ''0123456789'')"

definition is_ident_char :: "char \<Rightarrow> bool" where
  "is_ident_char c =
     (c \<in> set ''abcdefghijklmnopqrstuvwxyzABCDEFGHIJKLMNOPQRSTUVWXYZ0123456789_'')"

definition digit_val :: "char \<Rightarrow> nat" where
  "digit_val c = of_char c - 48"

definition parse_nat :: "string \<Rightarrow> nat" where
  "parse_nat ds = foldl (\<lambda>n c. 10 * n + digit_val c) 0 ds"

definition strip :: "string \<Rightarrow> string" where
  "strip t = rev (dropWhile (\<lambda>c. c = CHR '' '') (rev (dropWhile (\<lambda>c. c = CHR '' '') t)))"

definition parse_int_lit :: "string \<Rightarrow> int option" where
  "parse_int_lit t =
     (let negative = (take 1 t = ''-''); ds = (if negative then drop 1 t else t)
      in if ds = [] then None
         else if \<not> list_all is_digit ds then None
         else if take 1 ds = ''0'' \<and> ds \<noteq> ''0'' then None
         else Some (if negative then - int (parse_nat ds) else int (parse_nat ds)))"

fun split_on :: "char \<Rightarrow> string \<Rightarrow> string list" where
  "split_on c [] = [[]]"
| "split_on c (x # xs) =
     (if x = c then [] # split_on c xs
      else (case split_on c xs of [] \<Rightarrow> [[x]] | w # ws \<Rightarrow> (x # w) # ws))"

fun all_some :: "'a option list \<Rightarrow> 'a list option" where
  "all_some [] = Some []"
| "all_some (None # xs) = None"
| "all_some (Some x # xs) = (case all_some xs of None \<Rightarrow> None | Some ys \<Rightarrow> Some (x # ys))"

definition parse_call :: "string \<Rightarrow> (string \<times> int list) option" where
  "parse_call src =
     (let name = takeWhile is_ident_char src;
          rest = strip (dropWhile is_ident_char src)
      in if name = [] then None
         else if take 1 rest \<noteq> ''('' then None
         else if take 1 (rev rest) \<noteq> '')'' then None
         else (case all_some (map (\<lambda>a. parse_int_lit (strip a))
                       (split_on (CHR '','') (butlast (drop 1 rest)))) of
                 None \<Rightarrow> None
               | Some args \<Rightarrow> Some (name, args)))"

definition randint_shape :: "string \<Rightarrow> (int \<times> int) option" where
  "randint_shape src =
     (case parse_call src of
        Some (name, [a, b]) \<Rightarrow> if name = ''randint'' then Some (a, b) else None
      | _ \<Rightarrow> None)"

fun draw :: "nat list \<Rightarrow> nat \<times> nat list" where
  "draw [] = (0, [])"
| "draw (r # rs) = (r, rs)"

definition randrange :: "int \<Rightarrow> int \<Rightarrow> (pyval, nat list) py" where
  "randrange start stop s =
     (if start < stop then
        (case draw s of (r, s') \<Rightarrow> (Inr (PInt (start + int (r mod nat (stop - start)))), s'))
      else (Inl PyException, s))"

definition randint :: "int \<Rightarrow> int \<Rightarrow> (pyval, nat list) py" where
  "randint a b = randrange a (b + 1)"

definition eval_random :: "string \<Rightarrow> (pyval, nat list) py" where
  "eval_random src s =
     (if startswith src ''random.'' then
        (case parse_call (drop 7 src) of
           None \<Rightarrow> (Inl PyException, s)
         | Some (name, args) \<Rightarrow>
             (case args of
                [a, b] \<Rightarrow>
                  if name = ''randint'' then randint a b s
                  else if name = ''randrange'' then randrange a b s
                  else (Inl PyException, s)
              | _ \<Rightarrow> (Inl PyException, s)))
      else (Inl PyException, s))"

definition fake_demo :: "string \<Rightarrow> (pyval, nat list) py" where
  "fake_demo name s =
     (case draw s of (r, s') \<Rightarrow>
        if name = ''name'' then (Inr (PStr ([''Ann Lee'', ''Bob Ray''] ! (r mod 2))), s')
        else if name = ''email'' then
          (Inr (PStr ([''ann@example.org'', ''bob@example.org''] ! (r mod 2))), s')
        else if name = ''ssn'' then (Inr (PStr (''078-05-112'' @ [digit_char (r mod 10)])), s')
        else if name = ''phone_number'' then (Inr (PStr (''555010'' @ str_nat (1000 + r mod 9000))), s')
        else if name = ''random_int'' then (Inr (PInt (int (r mod 10000))), s')
        else (Inl PyException, s))"

definition demo_runtime :: "nat list runtime" where
  "demo_runtime = \<lparr>fake = fake_demo, py_eval = eval_random\<rparr>"



section \<open>Reading a run: values in order, descendants, frames\<close>




text \<open>The text one child element gets: the rule lookup of \<open>anonymize_children\<close>.\<close>

definition mask_text :: "'s runtime \<Rightarrow> rule_table \<Rightarrow> element \<Rightarrow> (pyval, 's) py" where
  "mask_text rt config child s =
     (case map_of config (tag child) of
        None \<Rightarrow> (Inr (text_of child), s)
      | Some rule \<Rightarrow> apply_masking_rule rt rule s)"



section \<open>What the runtime is assumed to do, and the parser of the specification\<close>


text \<open>
  Faker's \<open>ssn\<close>, \<open>email\<close> and \<open>phone_number\<close> return strings. The regex branch hands
  their result on as it is, so this is what that branch relies on.
\<close>

definition regex_sources_return_str :: "'s runtime \<Rightarrow> bool" where
  "regex_sources_return_str rt =
     (\<forall>name \<in> set [''ssn'', ''email'', ''phone_number''].
        \<forall>s v s'. fake rt name s = (Inr v, s') \<longrightarrow> (\<exists>t. v = PStr t))"

text \<open>
  The rule variants and the parser of the specification (its sections 3 and 4.1), written
  from its words to compare the code with: \<^verbatim>\<open>"null"\<close> first, then the prefixes
  \<^verbatim>\<open>fake.\<close>, \<^verbatim>\<open>random.\<close> (only the shape \<^verbatim>\<open>randint(min, max)\<close>, anything else is
  \<open>Invalid\<close>) and \<^verbatim>\<open>regex:\<close>, and a literal otherwise. The code has no such parser.
\<close>

datatype rule =
  Literal string | SyntheticField string | RandomInt int int | Null | RegexClass string
  | Invalid string

definition spec_parse :: "string \<Rightarrow> rule" where
  "spec_parse raw =
     (if raw = ''null'' then Null
      else if startswith raw ''fake.'' then SyntheticField (drop 5 raw)
      else if startswith raw ''random.'' then
        (case randint_shape (drop 7 raw) of
           Some (lo, hi) \<Rightarrow> RandomInt lo hi
         | None \<Rightarrow> Invalid raw)
      else if startswith raw ''regex:'' then RegexClass (drop 6 raw)
      else Literal raw)"

section \<open>The decimal rendering\<close>

text \<open>
  \<open>str_int\<close> writes an integer the way Python's \<^verbatim>\<open>str\<close> does: the literal reader of
  \<open>parse_call\<close> reads every rendering back to the integer it came from.
\<close>

lemma digit_cases: "d < 10 \<Longrightarrow> d \<in> {0, 1, 2, 3, 4, 5, 6, 7, 8, 9 :: nat}"
  by auto

lemma digit_val_digit_char: "d < 10 \<Longrightarrow> digit_val (digit_char d) = d"
  using digit_cases [of d] by (auto simp: digit_val_def digit_char_def)

lemma is_digit_digit_char: "d < 10 \<Longrightarrow> is_digit (digit_char d)"
  using digit_cases [of d] by (auto simp: is_digit_def digit_char_def)

lemma digit_char_zero: "d < 10 \<Longrightarrow> digit_char d = CHR ''0'' \<Longrightarrow> d = 0"
  using digit_cases [of d] by (auto simp: digit_char_def)

lemma parse_nat_snoc: "parse_nat (ds @ [c]) = 10 * parse_nat ds + digit_val c"
  by (simp add: parse_nat_def)

lemma parse_nat_str_nat: "parse_nat (str_nat n) = n"
proof (induction n rule: str_nat.induct)
  case (1 n)
  show ?case
  proof (cases "n < 10")
    case True
    then show ?thesis
      by (simp add: str_nat.simps [of n] parse_nat_def digit_val_digit_char)
  next
    case False
    with 1 have "parse_nat (str_nat (n div 10)) = n div 10" by simp
    with False show ?thesis
      by (simp add: str_nat.simps [of n] parse_nat_snoc digit_val_digit_char)
  qed
qed

lemma str_nat_digits: "str_nat n \<noteq> [] \<and> list_all is_digit (str_nat n)"
proof (induction n rule: str_nat.induct)
  case (1 n)
  show ?case
  proof (cases "n < 10")
    case True
    then show ?thesis by (simp add: str_nat.simps [of n] is_digit_digit_char)
  next
    case False
    with 1 show ?thesis by (simp add: str_nat.simps [of n] is_digit_digit_char)
  qed
qed

lemma str_nat_leading: "0 < n \<Longrightarrow> take 1 (str_nat n) \<noteq> ''0''"
proof (induction n rule: str_nat.induct)
  case (1 n)
  show ?case
  proof (cases "n < 10")
    case True
    with "1.prems" show ?thesis
      by (auto simp: str_nat.simps [of n] dest: digit_char_zero)
  next
    case False
    then have pos: "0 < n div 10" by simp
    obtain c cs where c: "str_nat (n div 10) = c # cs"
      using str_nat_digits [of "n div 10"] by (cases "str_nat (n div 10)") auto
    from "1.IH" [OF False pos] c False show ?thesis
      by (simp add: str_nat.simps [of n])
  qed
qed

lemma str_nat_zero: "str_nat 0 = ''0''"
  by (simp add: str_nat.simps [of 0] digit_char_def)

lemma str_nat_no_sign: "take 1 (str_nat n) \<noteq> ''-''"
proof -
  obtain c cs where c: "str_nat n = c # cs" using str_nat_digits [of n] by (cases "str_nat n") auto
  with str_nat_digits [of n] have "is_digit c" by simp
  then have "c \<noteq> CHR ''-''" by (auto simp: is_digit_def)
  with c show ?thesis by simp
qed

lemma str_nat_canonical: "\<not> (take 1 (str_nat n) = ''0'' \<and> str_nat n \<noteq> ''0'')"
  using str_nat_zero str_nat_leading [of n] by (cases "n = 0") auto

lemma parse_int_lit_str_int: "parse_int_lit (str_int i) = Some i"
proof (cases "i < 0")
  case True
  then have t: "str_int i = CHR ''-'' # str_nat (nat (- i))" by (simp add: str_int_def)
  from True show ?thesis
    unfolding t parse_int_lit_def
    using str_nat_digits [of "nat (- i)"] str_nat_canonical [of "nat (- i)"]
      parse_nat_str_nat [of "nat (- i)"]
    by (simp add: Let_def)
next
  case False
  then have t: "str_int i = str_nat (nat i)" by (simp add: str_int_def)
  from False show ?thesis
    unfolding t parse_int_lit_def
    using str_nat_digits [of "nat i"] str_nat_canonical [of "nat i"]
      parse_nat_str_nat [of "nat i"] str_nat_no_sign [of "nat i"]
    by (simp add: Let_def)
qed

section \<open>The null rule\<close>

text \<open>
  C6. The rule string \<^verbatim>\<open>"null"\<close> selects the null branch, and that branch yields
  Python's \<^verbatim>\<open>None\<close>, not the string \<^verbatim>\<open>"null"\<close>; neither Faker nor \<^verbatim>\<open>eval\<close> is
  consulted, so the generator state is untouched and nothing can be raised. A field
  masked with it holds \<^verbatim>\<open>None\<close>.
\<close>

theorem null_rule_yields_None:
  "apply_masking_rule rt ''null'' s = (Inr PNone, s) \<and>
   fst (apply_masking_rule rt ''null'' s) \<noteq> Inr (PStr ''null'') \<and>
   anonymize_data rt [(key, value)] [(key, ''null'')] s = (Inr [(key, PNone)], s)"
proof -
  have "apply_masking_rule rt ''null'' s = (Inr PNone, s)"
    by (simp add: apply_masking_rule_def except_Exception_def masking_rule_body_def
        startswith_def)
  then show ?thesis by (simp add: anonymize_data_def)
qed

section \<open>Regex rules\<close>

lemma patterns_distinct:
  "SSN_PATTERN \<noteq> EMAIL_PATTERN" "SSN_PATTERN \<noteq> PHONE_PATTERN" "EMAIL_PATTERN \<noteq> PHONE_PATTERN"
  by (simp_all add: SSN_PATTERN_def EMAIL_PATTERN_def PHONE_PATTERN_def)

lemma regex_body:
  "masking_rule_body rt (''regex:'' @ p) = generate_masked_value_from_regex rt p"
  by (rule ext) (simp add: masking_rule_body_def startswith_def)

text \<open>
  C4. A rule \<^verbatim>\<open>regex:<pattern>\<close> compares the declared pattern, as a string, with three
  fixed patterns: the SSN, email and phone patterns hand over to Faker's \<open>ssn\<close>,
  \<open>email\<close> and \<open>phone_number\<close> (inside the \<^verbatim>\<open>try\<close> block), and every other
  pattern yields \<^verbatim>\<open>"[MASKED_VALUE]"\<close> without raising and without touching the
  generators.
\<close>

theorem regex_rule_classification:
  "apply_masking_rule rt (''regex:'' @ SSN_PATTERN) s = except_Exception (fake rt ''ssn'') s \<and>
   apply_masking_rule rt (''regex:'' @ EMAIL_PATTERN) s = except_Exception (fake rt ''email'') s \<and>
   apply_masking_rule rt (''regex:'' @ PHONE_PATTERN) s = except_Exception (fake rt ''phone_number'') s \<and>
   (p \<noteq> SSN_PATTERN \<and> p \<noteq> EMAIL_PATTERN \<and> p \<noteq> PHONE_PATTERN \<longrightarrow>
      apply_masking_rule rt (''regex:'' @ p) s = (Inr (PStr ''[MASKED_VALUE]''), s))"
  using patterns_distinct
  unfolding apply_masking_rule_def regex_body
  by (simp add: except_Exception_def generate_masked_value_from_regex_def)

theorem regex_rule_classification_witness:
  "''unknown-pattern'' \<noteq> SSN_PATTERN \<and> ''unknown-pattern'' \<noteq> EMAIL_PATTERN \<and>
   ''unknown-pattern'' \<noteq> PHONE_PATTERN \<and>
   apply_masking_rule demo_runtime ''regex:unknown-pattern'' [7, 8] = (Inr (PStr ''[MASKED_VALUE]''), [7, 8]) \<and>
   apply_masking_rule demo_runtime (''regex:'' @ SSN_PATTERN) [7, 8] = (Inr (PStr ''078-05-1127''), [8])"
proof -
  have d: "''unknown-pattern'' \<noteq> SSN_PATTERN \<and> ''unknown-pattern'' \<noteq> EMAIL_PATTERN \<and>
   ''unknown-pattern'' \<noteq> PHONE_PATTERN"
    by (simp add: SSN_PATTERN_def EMAIL_PATTERN_def PHONE_PATTERN_def)
  have f: "except_Exception (fake demo_runtime ''ssn'') [7, 8] = (Inr (PStr ''078-05-1127''), [8])"
    by (simp add: except_Exception_def demo_runtime_def fake_demo_def digit_char_def)
  show ?thesis
    using d f regex_rule_classification [of demo_runtime "[7, 8]" "''unknown-pattern''"]
    by simp
qed

section \<open>Rule evaluation yields strings\<close>

lemma random_not_fake: "startswith rule ''random.'' \<Longrightarrow> \<not> startswith rule ''fake.''"
proof
  assume r: "startswith rule ''random.''" and f: "startswith rule ''fake.''"
  from r have eq: "take (length ''random.'') rule = ''random.''"
    unfolding startswith_def .
  from f have "''fake.'' = take (length ''fake.'') rule"
    unfolding startswith_def by simp
  also have "\<dots> = take (length ''fake.'') (take (length ''random.'') rule)"
    by simp
  also have "\<dots> = take (length ''fake.'') ''random.''"
    by (simp only: eq)
  finally show False by simp
qed

lemma str_of_value:
  "str_of call s = (Inr v, s') \<Longrightarrow> \<exists>t. v = PStr t"
  by (auto simp: str_of_def split: prod.splits sum.splits)

lemma generate_value_str:
  assumes "regex_sources_return_str rt"
    and "generate_masked_value_from_regex rt p s = (Inr v, s')"
  shows "\<exists>t. v = PStr t"
proof -
  from assms(1) have src: "\<And>name s v s'. name \<in> {''ssn'', ''email'', ''phone_number''} \<Longrightarrow>
      fake rt name s = (Inr v, s') \<Longrightarrow> \<exists>t. v = PStr t"
    unfolding regex_sources_return_str_def by simp blast
  show ?thesis
    using assms(2) src [of "''ssn''" s v s'] src [of "''email''" s v s']
      src [of "''phone_number''" s v s']
    by (auto simp: generate_masked_value_from_regex_def split: if_splits)
qed

lemma body_value_str:
  assumes "regex_sources_return_str rt" and "rule \<noteq> ''null''"
    and "masking_rule_body rt rule s = (Inr v, s')"
  shows "\<exists>t. v = PStr t"
  using assms
  by (auto simp: masking_rule_body_def split: if_splits
      dest: str_of_value generate_value_str)

lemma except_Exception_value:
  "except_Exception body s = (Inr v, s') \<Longrightarrow>
   body s = (Inr v, s') \<or> (body s = (Inl PyException, s') \<and> v = PStr ''[MASKING_ERROR]'')"
  by (auto simp: except_Exception_def split: prod.splits sum.splits pyexc.splits)

text \<open>
  C10. For every rule string other than \<^verbatim>\<open>"null"\<close>, a masked value that is returned
  is a string: a \<^verbatim>\<open>fake.\<close> rule returns \<^verbatim>\<open>str()\<close> of what the Faker provider
  returned, a \<^verbatim>\<open>random.\<close> rule returns \<^verbatim>\<open>str()\<close> of what \<^verbatim>\<open>eval\<close> returned (for
  an integer \<open>n\<close> its decimal rendering \<open>str_int n\<close>, whatever the type of the field it
  replaces), a rule with no known prefix returns the rule string itself, and a
  \<^verbatim>\<open>regex:\<close> rule returns the marker or, uncoerced, what Faker's \<open>ssn\<close>, \<open>email\<close>
  or \<open>phone_number\<close> returned, which are strings.
\<close>

theorem masked_value_is_str:
  assumes "rule \<noteq> ''null''" and "regex_sources_return_str rt"
  shows "(\<forall>v s'. apply_masking_rule rt rule s = (Inr v, s') \<longrightarrow> (\<exists>t. v = PStr t)) \<and>
         (\<forall>w s1. startswith rule ''fake.'' \<and> fake rt (drop 5 rule) s = (Inr w, s1) \<longrightarrow>
            apply_masking_rule rt rule s = (Inr (PStr (py_str w)), s1)) \<and>
         (\<forall>n s1. startswith rule ''random.'' \<and> py_eval rt rule s = (Inr (PInt n), s1) \<longrightarrow>
            apply_masking_rule rt rule s = (Inr (PStr (str_int n)), s1)) \<and>
         (\<not> startswith rule ''fake.'' \<and> \<not> startswith rule ''random.'' \<and>
          \<not> startswith rule ''regex:'' \<longrightarrow>
            apply_masking_rule rt rule s = (Inr (PStr rule), s))"
proof (intro conjI allI impI)
  fix v s'
  assume "apply_masking_rule rt rule s = (Inr v, s')"
  then consider "masking_rule_body rt rule s = (Inr v, s')" | "v = PStr ''[MASKING_ERROR]''"
    unfolding apply_masking_rule_def by (auto dest: except_Exception_value)
  then show "\<exists>t. v = PStr t"
    using assms by cases (auto dest: body_value_str)
next
  fix w s1
  assume "startswith rule ''fake.'' \<and> fake rt (drop 5 rule) s = (Inr w, s1)"
  then show "apply_masking_rule rt rule s = (Inr (PStr (py_str w)), s1)"
    by (simp add: apply_masking_rule_def except_Exception_def masking_rule_body_def str_of_def)
next
  fix n s1
  assume a: "startswith rule ''random.'' \<and> py_eval rt rule s = (Inr (PInt n), s1)"
  then have "\<not> startswith rule ''fake.''"
    by (simp add: random_not_fake)
  with a show "apply_masking_rule rt rule s = (Inr (PStr (str_int n)), s1)"
    by (simp add: apply_masking_rule_def except_Exception_def masking_rule_body_def str_of_def)
next
  assume "\<not> startswith rule ''fake.'' \<and> \<not> startswith rule ''random.'' \<and>
          \<not> startswith rule ''regex:''"
  with assms(1) show "apply_masking_rule rt rule s = (Inr (PStr rule), s)"
    by (simp add: apply_masking_rule_def except_Exception_def masking_rule_body_def)
qed

lemma demo_regex_sources: "regex_sources_return_str demo_runtime"
  by (auto simp: regex_sources_return_str_def demo_runtime_def fake_demo_def
      split: prod.splits if_splits)

theorem masked_value_is_str_witness:
  "''random.randint(18, 65)'' \<noteq> ''null'' \<and> regex_sources_return_str demo_runtime \<and>
   startswith ''random.randint(18, 65)'' ''random.'' \<and>
   py_eval demo_runtime ''random.randint(18, 65)'' [100, 3] = (Inr (PInt 22), [3]) \<and>
   apply_masking_rule demo_runtime ''random.randint(18, 65)'' [100, 3] = (Inr (PStr ''22''), [3])"
proof -
  have e: "py_eval demo_runtime ''random.randint(18, 65)'' [100, 3] = (Inr (PInt 22), [3])"
    by code_simp
  have p: "startswith ''random.randint(18, 65)'' ''random.''"
    by (simp add: startswith_def)
  have r: "str_int 22 = ''22''"
    by code_simp
  from masked_value_is_str [of "''random.randint(18, 65)''" demo_runtime "[100, 3]"]
    demo_regex_sources
  have "\<forall>n s1. startswith ''random.randint(18, 65)'' ''random.'' \<and>
           py_eval demo_runtime ''random.randint(18, 65)'' [100, 3] = (Inr (PInt n), s1) \<longrightarrow>
           apply_masking_rule demo_runtime ''random.randint(18, 65)'' [100, 3] =
             (Inr (PStr (str_int n)), s1)"
    by simp
  with e p have "apply_masking_rule demo_runtime ''random.randint(18, 65)'' [100, 3] =
             (Inr (PStr (str_int 22)), [3])"
    by blast
  with e p r demo_regex_sources show ?thesis by simp
qed

section \<open>Rules with the prefix \<^verbatim>\<open>random.\<close>\<close>

lemma random_rule_body:
  "startswith rule ''random.'' \<Longrightarrow> masking_rule_body rt rule = str_of (py_eval rt rule)"
  by (rule ext) (simp add: masking_rule_body_def random_not_fake)

lemma randrange_in_range:
  assumes "start < stop"
  shows "\<exists>n s'. randrange start stop s = (Inr (PInt n), s') \<and> start \<le> n \<and> n < stop"
proof -
  obtain r s' where d: "draw s = (r, s')" by (cases "draw s")
  have "r mod nat (stop - start) < nat (stop - start)"
    using assms by simp
  then have "int (r mod nat (stop - start)) < stop - start"
    using assms by linarith
  then have "start + int (r mod nat (stop - start)) < stop" by simp
  moreover have "start \<le> start + int (r mod nat (stop - start))" by simp
  ultimately show ?thesis
    using assms d by (simp add: randrange_def)
qed

lemma randint_in_range:
  assumes "a \<le> b"
  shows "\<exists>n s'. randint a b s = (Inr (PInt n), s') \<and> a \<le> n \<and> n \<le> b"
proof -
  from assms have "a < b + 1" by simp
  from randrange_in_range [OF this, of s] show ?thesis
    by (auto simp: randint_def)
qed


lemma eval_random_randint:
  assumes "startswith rule ''random.''" and "randint_shape (drop 7 rule) = Some (a, b)"
  shows "eval_random rule s = randint a b s"
  using assms
  by (auto simp: eval_random_def randint_shape_def
      split: option.splits prod.splits list.splits if_splits)

text \<open>
  C1, as amended. The code does not parse a \<^verbatim>\<open>random.\<close> rule: it hands the whole rule
  string to \<^verbatim>\<open>eval\<close> and returns \<^verbatim>\<open>str()\<close> of the result, or the error marker when
  the evaluation raises an \<^verbatim>\<open>Exception\<close>. When the string has the shape
  \<^verbatim>\<open>random.randint(min, max)\<close> with two integer literals and \<open>min \<le> max\<close>, every
  evaluation (whatever the generator draws) yields the decimal rendering of an integer
  in \<open>[min, max]\<close>.
\<close>

theorem random_rule_is_evaluated:
  "(startswith rule ''random.'' \<longrightarrow>
      apply_masking_rule rt rule s = except_Exception (str_of (py_eval rt rule)) s) \<and>
   (startswith rule ''random.'' \<and> randint_shape (drop 7 rule) = Some (a, b) \<and> a \<le> b \<longrightarrow>
      (\<exists>n d'. apply_masking_rule demo_runtime rule d = (Inr (PStr (str_int n)), d') \<and>
         a \<le> n \<and> n \<le> b))"
proof (intro conjI impI)
  assume "startswith rule ''random.''"
  then show "apply_masking_rule rt rule s = except_Exception (str_of (py_eval rt rule)) s"
    by (simp add: apply_masking_rule_def random_rule_body)
next
  assume h: "startswith rule ''random.'' \<and> randint_shape (drop 7 rule) = Some (a, b) \<and> a \<le> b"
  then obtain n d' where n: "randint a b d = (Inr (PInt n), d')" "a \<le> n" "n \<le> b"
    using randint_in_range [of a b d] by blast
  from h have "py_eval demo_runtime rule d = randint a b d"
    by (simp add: demo_runtime_def eval_random_randint)
  with h n have "apply_masking_rule demo_runtime rule d = (Inr (PStr (str_int n)), d')"
    by (simp add: apply_masking_rule_def random_rule_body except_Exception_def str_of_def)
  with n show "\<exists>n d'. apply_masking_rule demo_runtime rule d = (Inr (PStr (str_int n)), d') \<and>
         a \<le> n \<and> n \<le> b"
    by blast
qed

theorem random_rule_is_evaluated_witness:
  "startswith ''random.randint(18,65)'' ''random.'' \<and>
   randint_shape (drop 7 ''random.randint(18,65)'') = Some (18, 65) \<and> (18::int) \<le> 65 \<and>
   (\<exists>n d'. apply_masking_rule demo_runtime ''random.randint(18,65)'' [1000] =
              (Inr (PStr (str_int n)), d') \<and> 18 \<le> n \<and> n \<le> 65) \<and>
   apply_masking_rule demo_runtime ''random.randint(18,65)'' [1000] = (Inr (PStr ''58''), [])"
proof -
  have p: "startswith ''random.randint(18,65)'' ''random.''"
    by (simp add: startswith_def)
  have sh: "randint_shape (drop 7 ''random.randint(18,65)'') = Some (18, 65)"
    by code_simp
  have v: "apply_masking_rule demo_runtime ''random.randint(18,65)'' [1000] = (Inr (PStr ''58''), [])"
    by code_simp
  have le: "(18::int) \<le> 65" by simp
  from random_rule_is_evaluated [of "''random.randint(18,65)''" demo_runtime "[1000]" 18 65 "[1000]"] p sh le
  have "\<exists>n d'. apply_masking_rule demo_runtime ''random.randint(18,65)'' [1000] =
              (Inr (PStr (str_int n)), d') \<and> 18 \<le> n \<and> n \<le> 65"
    by blast
  with p sh v show ?thesis by simp
qed

text \<open>
  C1 as the specification states it fails on the code: \<^verbatim>\<open>random.randrange(5, 6)\<close> has
  the prefix and not the shape \<^verbatim>\<open>randint(min, max)\<close>, so the specification's parser
  makes it \<open>Invalid\<close>; the code evaluates it, uses up a draw of the generator and returns
  the value \<^verbatim>\<open>"5"\<close>, not the error marker.
\<close>

theorem random_rule_not_parsed_counterexample:
  "startswith ''random.randrange(5, 6)'' ''random.'' \<and>
   spec_parse ''random.randrange(5, 6)'' = Invalid ''random.randrange(5, 6)'' \<and>
   apply_masking_rule demo_runtime ''random.randrange(5, 6)'' [100, 3] = (Inr (PStr ''5''), [3]) \<and>
   apply_masking_rule demo_runtime ''random.randrange(5, 6)'' [100, 3] \<noteq>
     (Inr (PStr ''[MASKING_ERROR]''), [100, 3])"
proof -
  have "spec_parse ''random.randrange(5, 6)'' = Invalid ''random.randrange(5, 6)''"
    by code_simp
  moreover have "apply_masking_rule demo_runtime ''random.randrange(5, 6)'' [100, 3] =
      (Inr (PStr ''5''), [3])"
    by code_simp
  ultimately show ?thesis by (simp add: startswith_def)
qed

section \<open>Runs in order\<close>





section \<open>Facts about mapping mode\<close>







section \<open>Empty rule strings in mapping mode\<close>



section \<open>A failing rule in mapping mode\<close>














section \<open>Sequence mode\<close>








section \<open>Tree mode\<close>



lemma anonymize_xml_element_root:
  "anonymize_xml_element rt (Element tg tx ta at cs) config s =
     (case anonymize_children rt config cs s of
        (Inl e, s') \<Rightarrow> (Inl e, s')
      | (Inr cs', s') \<Rightarrow> (Inr (Element tg tx ta at cs'), s'))"
  by (simp add: anonymize_xml_element.simps split: prod.splits sum.splits)

declare anonymize_children.simps(2) [simp del]

lemma mask_text_no_rule:
  "map_of config tg = None \<Longrightarrow> mask_text rt config (Element tg tx ta at cs) s = (Inr tx, s)"
  by (simp add: mask_text_def)








section \<open>The root element\<close>

text \<open>
  C9. Tree mode never looks the root's own tag up: after the walk the root has the tag
  and the text it had, whether or not its tag has an entry in the rule table. Only the
  elements below it are candidates.
\<close>

theorem root_text_unchanged:
  assumes "anonymize_xml_element rt element config s = (Inr element', s')"
  shows "text_of element' = text_of element \<and> tag element' = tag element"
proof (cases element)
  case (Element tg tx ta at cs)
  with assms show ?thesis
    by (auto simp: anonymize_xml_element_root split: prod.splits sum.splits)
qed

theorem root_text_unchanged_witness:
  "map_of [(''name'', ''fake.name'')] ''name'' = Some ''fake.name'' \<and>
   anonymize_xml_element demo_runtime
     (Element ''name'' (PStr ''top'') PNone [] [Element ''name'' (PStr ''John Doe'') PNone [] []])
     [(''name'', ''fake.name'')] [5, 6] =
     (Inr (Element ''name'' (PStr ''top'') PNone []
             [Element ''name'' (PStr ''Bob Ray'') PNone [] []]), [6]) \<and>
   text_of (Element ''name'' (PStr ''top'') PNone []
             [Element ''name'' (PStr ''Bob Ray'') PNone [] []]) =
   text_of (Element ''name'' (PStr ''top'') PNone [] [Element ''name'' (PStr ''John Doe'') PNone [] []])"
proof -
  have run: "anonymize_xml_element demo_runtime
     (Element ''name'' (PStr ''top'') PNone [] [Element ''name'' (PStr ''John Doe'') PNone [] []])
     [(''name'', ''fake.name'')] [5, 6] =
     (Inr (Element ''name'' (PStr ''top'') PNone []
             [Element ''name'' (PStr ''Bob Ray'') PNone [] []]), [6])"
    by code_simp
  from root_text_unchanged [OF run] run show ?thesis by simp
qed

section \<open>Shape and untouched fields\<close>





end
